theory Spec2Isabelle
  imports Complex_Main "HOL-Library.AList" "HOL-Library.Multiset"
begin

section \<open>Data model of the workload simulator\<close>

text \<open>
  The embedding follows the classes of \<^verbatim>\<open>src/simulator.js\<close> (lines 1 to 339; the second
  copy of the classes further down the file behaves the same on everything modelled here).

  \<^item> JavaScript numbers that carry resources (CPU, memory, quotas, the workload factor) are
    modelled as exact rationals: rounding of IEEE doubles is outside the model, and so are
    \<^verbatim>\<open>NaN\<close> and the infinities. Replica counts and node counts are integers.
  \<^item> Every object lives in the collection that owns it: a node in \<^verbatim>\<open>workerNodes\<close>, a
    namespace in the \<^verbatim>\<open>namespaces\<close> table, a deployment in \<^verbatim>\<open>deployments\<close>, a pod in
    the \<^verbatim>\<open>pods\<close> of its deployment. A non-owning reference is the key of its target:
    a pod refers to its node by the node's position in \<^verbatim>\<open>workerNodes\<close> (the pool is only
    ever appended to or truncated, and every truncation resets all pod bindings), a
    deployment refers to its namespace by the table key, and the references kept in
    \<^verbatim>\<open>node.pods\<close> and \<^verbatim>\<open>namespace.deployments\<close> are object identities, numbers drawn
    from the allocation counter \<open>heapNext\<close> when the object is constructed.
\<close>

definition RESERVED_CPU :: rat where
  "RESERVED_CPU = 2"

definition RESERVED_MEMORY :: rat where
  "RESERVED_MEMORY = 4"

type_synonym pod_ref = nat
type_synonym dep_ref = nat
type_synonym node_ref = nat

datatype pod_status = Pending | Running

datatype js_error = TypeError

text \<open>Template literals print a number in decimal.\<close>

fun string_of_nat :: "nat \<Rightarrow> string" where
  "string_of_nat n =
     (if n < 10 then [''0123456789'' ! n]
      else string_of_nat (n div 10) @ [''0123456789'' ! (n mod 10)])"

declare string_of_nat.simps [simp del]

subsection \<open>WorkerNode\<close>

record worker_node =
  n_name :: string
  cpuCapacity :: rat
  memoryCapacity :: rat
  n_cpuAllocated :: rat
  n_memoryAllocated :: rat
  n_pods :: "pod_ref list"

definition WorkerNode :: "string \<Rightarrow> rat \<Rightarrow> rat \<Rightarrow> worker_node" where
  "WorkerNode name cpu memory =
     \<lparr>n_name = name, cpuCapacity = cpu, memoryCapacity = memory,
      n_cpuAllocated = 0, n_memoryAllocated = 0, n_pods = []\<rparr>"

definition allocatableCpu :: "worker_node \<Rightarrow> rat" where
  "allocatableCpu n = max 0 (cpuCapacity n - RESERVED_CPU)"

definition allocatableMemory :: "worker_node \<Rightarrow> rat" where
  "allocatableMemory n = max 0 (memoryCapacity n - RESERVED_MEMORY)"

definition n_allocateResources :: "worker_node \<Rightarrow> rat \<Rightarrow> rat \<Rightarrow> bool \<times> worker_node" where
  "n_allocateResources n cpu memory =
     (True, n\<lparr>n_cpuAllocated := n_cpuAllocated n + cpu,
               n_memoryAllocated := n_memoryAllocated n + memory\<rparr>)"

definition n_deallocateResources :: "worker_node \<Rightarrow> rat \<Rightarrow> rat \<Rightarrow> worker_node" where
  "n_deallocateResources n cpu memory =
     (let c = n_cpuAllocated n - cpu;
          m = n_memoryAllocated n - memory
      in n\<lparr>n_cpuAllocated := (if c < 0 then 0 else c),
            n_memoryAllocated := (if m < 0 then 0 else m)\<rparr>)"

definition addPod :: "worker_node \<Rightarrow> pod_ref \<Rightarrow> worker_node" where
  "addPod n r = n\<lparr>n_pods := n_pods n @ [r]\<rparr>"

text \<open>\<^verbatim>\<open>indexOf\<close> finds the first occurrence and \<^verbatim>\<open>splice(index, 1)\<close> removes it.\<close>

definition removePod :: "worker_node \<Rightarrow> pod_ref \<Rightarrow> worker_node" where
  "removePod n r = n\<lparr>n_pods := remove1 r (n_pods n)\<rparr>"

subsection \<open>Namespace\<close>

record namespace =
  ns_name :: string
  cpuQuota :: rat
  memoryQuota :: rat
  ns_deployments :: "dep_ref list"
  ns_cpuAllocated :: rat
  ns_memoryAllocated :: rat

definition Namespace :: "string \<Rightarrow> rat \<Rightarrow> rat \<Rightarrow> namespace" where
  "Namespace name cq mq =
     \<lparr>ns_name = name, cpuQuota = cq, memoryQuota = mq, ns_deployments = [],
      ns_cpuAllocated = 0, ns_memoryAllocated = 0\<rparr>"

definition ns_allocateResources :: "namespace \<Rightarrow> rat \<Rightarrow> rat \<Rightarrow> bool \<times> namespace" where
  "ns_allocateResources ns cpu memory =
     (if ns_cpuAllocated ns + cpu \<le> cpuQuota ns \<and> ns_memoryAllocated ns + memory \<le> memoryQuota ns
      then (True, ns\<lparr>ns_cpuAllocated := ns_cpuAllocated ns + cpu,
                      ns_memoryAllocated := ns_memoryAllocated ns + memory\<rparr>)
      else (False, ns))"

definition ns_deallocateResources :: "namespace \<Rightarrow> rat \<Rightarrow> rat \<Rightarrow> namespace" where
  "ns_deallocateResources ns cpu memory =
     (let c = ns_cpuAllocated ns - cpu;
          m = ns_memoryAllocated ns - memory
      in ns\<lparr>ns_cpuAllocated := (if c < 0 then 0 else c),
             ns_memoryAllocated := (if m < 0 then 0 else m)\<rparr>)"

subsection \<open>Pod and Deployment\<close>

record pod =
  p_ref :: pod_ref
  p_name :: string
  cpuRequest :: rat
  memoryRequest :: rat
  status :: pod_status
  p_node :: "node_ref option"

definition Pod :: "pod_ref \<Rightarrow> string \<Rightarrow> rat \<Rightarrow> rat \<Rightarrow> pod" where
  "Pod r name cpu memory =
     \<lparr>p_ref = r, p_name = name, cpuRequest = cpu, memoryRequest = memory,
      status = Pending, p_node = None\<rparr>"

record deployment =
  d_ref :: dep_ref
  d_name :: string
  d_namespace :: string
  replicaCount :: int
  cpuRequestPerReplica :: rat
  memoryRequestPerReplica :: rat
  d_pods :: "pod list"

text \<open>
  \<^verbatim>\<open>createPods\<close> replaces the pod list by \<^verbatim>\<open>replicaCount\<close> new objects (none when the
  count is not positive); \<open>h\<close> is the first unused object identity.
\<close>

definition createPods :: "nat \<Rightarrow> deployment \<Rightarrow> deployment" where
  "createPods h d =
     d\<lparr>d_pods := map (\<lambda>i. Pod (h + i) (d_name d @ ''-'' @ string_of_nat i)
                          (cpuRequestPerReplica d) (memoryRequestPerReplica d))
                   [0..<nat (replicaCount d)]\<rparr>"

definition Deployment :: "nat \<Rightarrow> string \<Rightarrow> string \<Rightarrow> int \<Rightarrow> rat \<Rightarrow> rat \<Rightarrow> deployment" where
  "Deployment h name nsKey rc cpu memory =
     createPods (Suc h)
       \<lparr>d_ref = h, d_name = name, d_namespace = nsKey, replicaCount = rc,
        cpuRequestPerReplica = cpu, memoryRequestPerReplica = memory, d_pods = []\<rparr>"

section \<open>OpenShiftSimulator\<close>

record simulator =
  workerNodes :: "worker_node list"
  namespaces :: "(string \<times> namespace) list"
  deployments :: "deployment list"
  simulatedWorkloadFactor :: rat
  nodeCounter :: nat
  heapNext :: nat

text \<open>
  \<^verbatim>\<open>this.namespaces\<close> is a plain object literal, so reading a property also finds the
  properties inherited from \<^verbatim>\<open>Object.prototype\<close>: for these names the read yields a
  function (or, for \<^verbatim>\<open>__proto__\<close>, the prototype object), which is truthy and has no
  method \<^verbatim>\<open>allocateResources\<close>.
\<close>

definition objectPrototypeKeys :: "string list" where
  "objectPrototypeKeys =
     [''constructor'', ''toString'', ''toLocaleString'', ''valueOf'', ''hasOwnProperty'',
      ''isPrototypeOf'', ''propertyIsEnumerable'', ''__proto__'', ''__defineGetter__'',
      ''__defineSetter__'', ''__lookupGetter__'', ''__lookupSetter__'']"

datatype property = Undefined | Inherited | Own namespace

definition getNamespace :: "simulator \<Rightarrow> string \<Rightarrow> property" where
  "getNamespace st name =
     (case map_of (namespaces st) name of
        Some ns \<Rightarrow> Own ns
      | None \<Rightarrow> if name \<in> set objectPrototypeKeys then Inherited else Undefined)"

definition addWorkerNode :: "string option \<Rightarrow> rat \<Rightarrow> rat \<Rightarrow> simulator \<Rightarrow> worker_node \<times> simulator" where
  "addWorkerNode name cpu memory st =
     (let c = Suc (nodeCounter st);
          nm = (case name of
                  None \<Rightarrow> ''worker-node-'' @ string_of_nat c
                | Some s \<Rightarrow> if s = [] then ''worker-node-'' @ string_of_nat c else s);
          node = WorkerNode nm cpu memory
      in (node, st\<lparr>nodeCounter := c, workerNodes := workerNodes st @ [node]\<rparr>))"

definition constructor :: simulator where
  "constructor =
     ((\<lambda>st. snd (addWorkerNode None 128 1500 st)) ^^ 3)
       \<lparr>workerNodes = [], namespaces = [], deployments = [], simulatedWorkloadFactor = 0,
        nodeCounter = 0, heapNext = 0\<rparr>"

subsection \<open>Placement\<close>

text \<open>
  \<^verbatim>\<open>[...this.workerNodes].sort((a, b) => a.cpuAllocated - b.cpuAllocated)\<close>: a stable sort
  (as \<^verbatim>\<open>Array.prototype.sort\<close> is since ECMAScript 2019) of the node references by the
  allocation they have when the call starts.
\<close>

definition sortedNodes :: "worker_node list \<Rightarrow> node_ref list" where
  "sortedNodes nodes = sort_key (\<lambda>i. n_cpuAllocated (nodes ! i)) [0..<length nodes]"

fun tryNodes :: "node_ref list \<Rightarrow> worker_node list \<Rightarrow> pod \<Rightarrow> worker_node list \<times> pod" where
  "tryNodes [] nodes p = (nodes, p)"
| "tryNodes (i # rest) nodes p =
     (let (ok, n') = n_allocateResources (nodes ! i) (cpuRequest p) (memoryRequest p)
      in if ok then (nodes[i := addPod n' (p_ref p)], p\<lparr>status := Running, p_node := Some i\<rparr>)
         else tryNodes rest (nodes[i := n']) p)"

fun placePods :: "node_ref list \<Rightarrow> worker_node list \<Rightarrow> pod list \<Rightarrow> worker_node list \<times> pod list" where
  "placePods cands nodes [] = (nodes, [])"
| "placePods cands nodes (p # ps) =
     (let (nodes1, p1) = (if status p = Pending then tryNodes cands nodes p else (nodes, p));
          (nodes2, ps2) = placePods cands nodes1 ps
      in (nodes2, p1 # ps2))"

text \<open>The deployment argument is given by its position in \<^verbatim>\<open>this.deployments\<close>.\<close>

definition allocateDeploymentPods :: "nat \<Rightarrow> simulator \<Rightarrow> simulator" where
  "allocateDeploymentPods di st =
     (if di < length (deployments st) then
        (let d = deployments st ! di;
             (nodes', pods') = placePods (sortedNodes (workerNodes st)) (workerNodes st) (d_pods d)
         in st\<lparr>workerNodes := nodes',
                deployments := (deployments st)[di := d\<lparr>d_pods := pods'\<rparr>]\<rparr>)
      else st)"

definition resetNode :: "worker_node \<Rightarrow> worker_node" where
  "resetNode n = n\<lparr>n_cpuAllocated := 0, n_memoryAllocated := 0, n_pods := []\<rparr>"

definition resetPod :: "pod \<Rightarrow> pod" where
  "resetPod p = p\<lparr>status := Pending, p_node := None\<rparr>"

definition reallocateAllPods :: "simulator \<Rightarrow> simulator" where
  "reallocateAllPods st =
     (let st1 = st\<lparr>workerNodes := map resetNode (workerNodes st)\<rparr>;
          st2 = st1\<lparr>deployments := map (\<lambda>d. d\<lparr>d_pods := map resetPod (d_pods d)\<rparr>) (deployments st1)\<rparr>
      in fold allocateDeploymentPods [0..<length (deployments st2)] st2)"

subsection \<open>Node count\<close>

text \<open>
  \<^verbatim>\<open>splice(targetCount)\<close> removes everything from position \<^verbatim>\<open>targetCount\<close> on; a negative
  start counts from the end of the array.
\<close>

definition splice_from :: "int \<Rightarrow> 'a list \<Rightarrow> 'a list" where
  "splice_from start xs =
     (if start < 0 then take (nat (max (int (length xs) + start) 0)) xs else take (nat start) xs)"

definition setTotalWorkerNodes :: "int \<Rightarrow> simulator \<Rightarrow> bool \<times> simulator" where
  "setTotalWorkerNodes targetCount st =
     (let currentCount = int (length (workerNodes st))
      in if targetCount < currentCount then
           (True, reallocateAllPods (st\<lparr>workerNodes := splice_from targetCount (workerNodes st)\<rparr>))
         else if targetCount > currentCount then
           (True, reallocateAllPods
                    (((\<lambda>s. snd (addWorkerNode None 128 1500 s)) ^^ nat (targetCount - currentCount)) st))
         else (True, st))"

subsection \<open>Namespaces and deployments\<close>

definition createNamespace :: "string \<Rightarrow> rat \<Rightarrow> rat \<Rightarrow> simulator \<Rightarrow> namespace option \<times> simulator" where
  "createNamespace name cq mq st =
     (case getNamespace st name of
        Undefined \<Rightarrow>
          (let ns = Namespace name cq mq
           in (Some ns, st\<lparr>namespaces := namespaces st @ [(name, ns)]\<rparr>))
      | _ \<Rightarrow> (None, st))"

text \<open>
  A deployment holds a reference to its namespace object; the object is the table's entry
  under \<open>d_namespace\<close>. The two helpers below are the calls
  \<^verbatim>\<open>namespace.deallocateResources\<close> and \<^verbatim>\<open>namespace.allocateResources\<close> made through that
  reference.
\<close>

definition nsDeallocate :: "string \<Rightarrow> rat \<Rightarrow> rat \<Rightarrow> simulator \<Rightarrow> simulator" where
  "nsDeallocate key cpu memory st =
     st\<lparr>namespaces := AList.map_entry key (\<lambda>ns. ns_deallocateResources ns cpu memory) (namespaces st)\<rparr>"

definition nsAllocate :: "string \<Rightarrow> rat \<Rightarrow> rat \<Rightarrow> simulator \<Rightarrow> bool \<times> simulator" where
  "nsAllocate key cpu memory st =
     (case map_of (namespaces st) key of
        None \<Rightarrow> (False, st)
      | Some ns \<Rightarrow>
          (let (ok, ns') = ns_allocateResources ns cpu memory
           in (ok, st\<lparr>namespaces := AList.map_entry key (\<lambda>_. ns') (namespaces st)\<rparr>)))"

definition addDeployment ::
  "string \<Rightarrow> string \<Rightarrow> int \<Rightarrow> rat \<Rightarrow> rat \<Rightarrow> simulator \<Rightarrow> js_error + (deployment option \<times> simulator)" where
  "addDeployment name namespaceName rc cpuPerReplica memoryPerReplica st =
     (case getNamespace st namespaceName of
        Undefined \<Rightarrow> Inr (None, st)
      | Inherited \<Rightarrow> Inl TypeError
      | Own ns \<Rightarrow>
          (let totalCpuNeeded = of_int rc * cpuPerReplica;
               totalMemoryNeeded = of_int rc * memoryPerReplica;
               (ok, st1) = nsAllocate namespaceName totalCpuNeeded totalMemoryNeeded st
           in if \<not> ok then Inr (None, st1)
              else
                (let dep = Deployment (heapNext st1) name namespaceName rc cpuPerReplica memoryPerReplica;
                     st2 = st1\<lparr>heapNext := Suc (heapNext st1) + length (d_pods dep),
                               deployments := deployments st1 @ [dep]\<rparr>;
                     st3 = st2\<lparr>namespaces :=
                                 AList.map_entry namespaceName
                                   (\<lambda>n. n\<lparr>ns_deployments := ns_deployments n @ [d_ref dep]\<rparr>)
                                   (namespaces st2)\<rparr>;
                     st4 = allocateDeploymentPods (length (deployments st3) - 1) st3
                 in Inr (Some (last (deployments st4)), st4))))"

fun findIndex :: "('a \<Rightarrow> bool) \<Rightarrow> 'a list \<Rightarrow> nat option" where
  "findIndex P [] = None"
| "findIndex P (x # xs) = (if P x then Some 0 else map_option Suc (findIndex P xs))"

definition unbindPod :: "pod \<Rightarrow> worker_node list \<Rightarrow> worker_node list" where
  "unbindPod p nodes =
     (case p_node p of
        None \<Rightarrow> nodes
      | Some i \<Rightarrow>
          nodes[i := removePod (n_deallocateResources (nodes ! i) (cpuRequest p) (memoryRequest p))
                               (p_ref p)])"

definition scaleDeployment :: "string \<Rightarrow> int \<Rightarrow> simulator \<Rightarrow> bool \<times> simulator" where
  "scaleDeployment name newReplicaCount st =
     (case findIndex (\<lambda>dep. d_name dep = name) (deployments st) of
        None \<Rightarrow> (False, st)
      | Some di \<Rightarrow>
          (let dep = deployments st ! di;
               key = d_namespace dep;
               oldTotalCpu = of_int (replicaCount dep) * cpuRequestPerReplica dep;
               oldTotalMemory = of_int (replicaCount dep) * memoryRequestPerReplica dep;
               newTotalCpu = of_int newReplicaCount * cpuRequestPerReplica dep;
               newTotalMemory = of_int newReplicaCount * memoryRequestPerReplica dep;
               st1 = nsDeallocate key oldTotalCpu oldTotalMemory st;
               st2 = st1\<lparr>workerNodes := fold unbindPod (d_pods dep) (workerNodes st1)\<rparr>;
               dep' = createPods (heapNext st2) (dep\<lparr>replicaCount := newReplicaCount\<rparr>);
               st3 = st2\<lparr>deployments := (deployments st2)[di := dep'],
                         heapNext := heapNext st2 + length (d_pods dep')\<rparr>;
               (ok, st4) = nsAllocate key newTotalCpu newTotalMemory st3
           in if \<not> ok then (False, snd (nsAllocate key oldTotalCpu oldTotalMemory st4))
              else (True, allocateDeploymentPods di st4)))"

definition deleteDeployment :: "string \<Rightarrow> simulator \<Rightarrow> bool \<times> simulator" where
  "deleteDeployment name st =
     (case findIndex (\<lambda>dep. d_name dep = name) (deployments st) of
        None \<Rightarrow> (False, st)
      | Some di \<Rightarrow>
          (let dep = deployments st ! di;
               key = d_namespace dep;
               totalCpu = of_int (replicaCount dep) * cpuRequestPerReplica dep;
               totalMemory = of_int (replicaCount dep) * memoryRequestPerReplica dep;
               st1 = nsDeallocate key totalCpu totalMemory st;
               st2 = st1\<lparr>namespaces :=
                           AList.map_entry key
                             (\<lambda>n. n\<lparr>ns_deployments := remove1 (d_ref dep) (ns_deployments n)\<rparr>)
                             (namespaces st1)\<rparr>;
               st3 = st2\<lparr>workerNodes := fold unbindPod (d_pods dep) (workerNodes st2)\<rparr>
           in (True, st3\<lparr>deployments := take di (deployments st3) @ drop (Suc di) (deployments st3)\<rparr>)))"

subsection \<open>Simulated workload\<close>

text \<open>
  \<^verbatim>\<open>Math.random()\<close> is a parameter: \<open>rnd k\<close> is the value of the \<open>k\<close>-th call made during
  one invocation of \<^verbatim>\<open>setSimulatedWorkloadFactor\<close> (at most 100 calls are made), a number
  in the half-open interval from 0 to 1. The literals \<^verbatim>\<open>1.2\<close> and \<^verbatim>\<open>0.01\<close> are the
  rationals \<open>6/5\<close> and \<open>1/100\<close>.
\<close>

fun forEachE :: "nat list \<Rightarrow> (nat \<Rightarrow> 's \<Rightarrow> js_error + 's) \<Rightarrow> 's \<Rightarrow> js_error + 's" where
  "forEachE [] body s = Inr s"
| "forEachE (i # rest) body s =
     (case body i s of Inl e \<Rightarrow> Inl e | Inr s' \<Rightarrow> forEachE rest body s')"

definition simulateDeployment ::
  "(nat \<Rightarrow> rat) \<Rightarrow> nat \<Rightarrow> string \<Rightarrow> rat \<Rightarrow> rat \<Rightarrow> nat \<Rightarrow> nat \<Rightarrow> simulator \<Rightarrow> js_error + simulator" where
  "simulateDeployment rnd numDeploymentsPerNs nsName cpuPerDeployment memoryPerDeployment i j st =
     (let depName = ''sim-dep-'' @ string_of_nat i @ ''-'' @ string_of_nat j;
          rc = \<lfloor>rnd (i * numDeploymentsPerNs + j) * 3\<rfloor> + 1;
          cpuPerReplica = max (1 / 100) (cpuPerDeployment / of_int rc);
          memoryPerReplica = max (1 / 100) (memoryPerDeployment / of_int rc)
      in case addDeployment depName nsName rc cpuPerReplica memoryPerReplica st of
           Inl e \<Rightarrow> Inl e
         | Inr (_, st') \<Rightarrow> Inr st')"

definition simulateNamespace ::
  "(nat \<Rightarrow> rat) \<Rightarrow> rat \<Rightarrow> rat \<Rightarrow> rat \<Rightarrow> nat \<Rightarrow> nat \<Rightarrow> nat \<Rightarrow> simulator \<Rightarrow> js_error + simulator" where
  "simulateNamespace rnd factor totalAllocatableCpu totalAllocatableMemory
       numNamespaces numDeploymentsPerNs i st =
     (let avgCpuPerNs = totalAllocatableCpu / of_nat numNamespaces;
          avgMemoryPerNs = totalAllocatableMemory / of_nat numNamespaces;
          nsName = ''sim-ns-'' @ string_of_nat i;
          st1 = snd (createNamespace nsName (avgCpuPerNs * (6 / 5)) (avgMemoryPerNs * (6 / 5)) st);
          targetCpuForNs = (totalAllocatableCpu * factor) / of_nat numNamespaces;
          targetMemoryForNs = (totalAllocatableMemory * factor) / of_nat numNamespaces;
          cpuPerDeployment = targetCpuForNs / of_nat numDeploymentsPerNs;
          memoryPerDeployment = targetMemoryForNs / of_nat numDeploymentsPerNs
      in forEachE [0..<numDeploymentsPerNs]
           (simulateDeployment rnd numDeploymentsPerNs nsName cpuPerDeployment memoryPerDeployment i)
           st1)"

definition setSimulatedWorkloadFactor ::
  "(nat \<Rightarrow> rat) \<Rightarrow> rat \<Rightarrow> simulator \<Rightarrow> js_error + (bool \<times> simulator)" where
  "setSimulatedWorkloadFactor rnd factor st =
     (if factor < 0 \<or> factor > 1 then Inr (False, st)
      else
        (let st1 = st\<lparr>simulatedWorkloadFactor := factor,
                      workerNodes := map resetNode (workerNodes st),
                      namespaces := [],
                      deployments := []\<rparr>
         in if factor > 0 then
              (let totalAllocatableCpu = sum_list (map allocatableCpu (workerNodes st1));
                   totalAllocatableMemory = sum_list (map allocatableMemory (workerNodes st1));
                   numNamespaces = nat (max 1 (min 10 \<lceil>factor * 10\<rceil>));
                   numDeploymentsPerNs = nat (max 1 (min 10 \<lceil>factor * 10\<rceil>))
               in case forEachE [0..<numNamespaces]
                         (simulateNamespace rnd factor totalAllocatableCpu totalAllocatableMemory
                            numNamespaces numDeploymentsPerNs)
                         st1 of
                    Inl e \<Rightarrow> Inl e
                  | Inr st2 \<Rightarrow> Inr (True, st2))
            else Inr (True, st1)))"

subsection \<open>Sequences of operations\<close>

datatype op =
    AddWorkerNode "string option" rat rat
  | SetTotalWorkerNodes int
  | CreateNamespace string rat rat
  | AddDeployment string string int rat rat
  | ScaleDeployment string int
  | DeleteDeployment string
  | SetSimulatedWorkloadFactor rat "nat \<Rightarrow> rat"

text \<open>
  The state an operation leaves behind. \<^verbatim>\<open>addDeployment\<close> throws before it has changed
  anything, so an exception leaves the state as it was.
\<close>

fun step :: "op \<Rightarrow> simulator \<Rightarrow> simulator" where
  "step (AddWorkerNode name cpu memory) st = snd (addWorkerNode name cpu memory st)"
| "step (SetTotalWorkerNodes n) st = snd (setTotalWorkerNodes n st)"
| "step (CreateNamespace name cq mq) st = snd (createNamespace name cq mq st)"
| "step (AddDeployment name nsName rc cpu memory) st =
     (case addDeployment name nsName rc cpu memory st of Inl _ \<Rightarrow> st | Inr (_, st') \<Rightarrow> st')"
| "step (ScaleDeployment name rc) st = snd (scaleDeployment name rc st)"
| "step (DeleteDeployment name) st = snd (deleteDeployment name st)"
| "step (SetSimulatedWorkloadFactor factor rnd) st =
     (case setSimulatedWorkloadFactor rnd factor st of Inl _ \<Rightarrow> st | Inr (_, st') \<Rightarrow> st')"

definition run :: "op list \<Rightarrow> simulator \<Rightarrow> simulator" where
  "run ops st = fold step ops st"


section \<open>Namespace accounting\<close>

text \<open>The deployments registered in a namespace, and their aggregate footprint.\<close>

definition registered :: "simulator \<Rightarrow> namespace \<Rightarrow> deployment list" where
  "registered st ns = filter (\<lambda>d. d_ref d \<in> set (ns_deployments ns)) (deployments st)"

definition cpuFootprint :: "simulator \<Rightarrow> namespace \<Rightarrow> rat" where
  "cpuFootprint st ns =
     sum_list (map (\<lambda>d. cpuRequestPerReplica d * of_int (replicaCount d)) (registered st ns))"

definition memoryFootprint :: "simulator \<Rightarrow> namespace \<Rightarrow> rat" where
  "memoryFootprint st ns =
     sum_list (map (\<lambda>d. memoryRequestPerReplica d * of_int (replicaCount d)) (registered st ns))"

section \<open>Node accounting\<close>

text \<open>
  The pods of the cluster are the pods of its deployments; a pod is bound to a node when
  its \<^verbatim>\<open>node\<close> field refers to it.
\<close>

definition allPods :: "simulator \<Rightarrow> pod list" where
  "allPods st = concat (map d_pods (deployments st))"

definition boundTo :: "node_ref \<Rightarrow> pod list \<Rightarrow> pod list" where
  "boundTo i ps = filter (\<lambda>p. p_node p = Some i) ps"



text \<open>
  Pods as the operations leave them: requests are not negative, a Pending pod has no node,
  and a node reference points into a pool of \<open>n\<close> nodes.
\<close>

definition podsOk :: "nat \<Rightarrow> pod list \<Rightarrow> bool" where
  "podsOk n ps \<longleftrightarrow>
     (\<forall>p\<in>set ps. 0 \<le> cpuRequest p \<and> 0 \<le> memoryRequest p \<and>
        (status p = Pending \<longrightarrow> p_node p = None) \<and>
        (\<forall>i. p_node p = Some i \<longrightarrow> i < n))"

text \<open>Deployments whose per-replica requests are not negative.\<close>

definition depsOk :: "deployment list \<Rightarrow> bool" where
  "depsOk ds \<longleftrightarrow> (\<forall>d\<in>set ds. 0 \<le> cpuRequestPerReplica d \<and> 0 \<le> memoryRequestPerReplica d)"


text \<open>
  Object identities are what they are meant to be: no two pods of the cluster share a
  reference, and every reference in use is below the allocation counter.
\<close>

definition podRefsOk :: "simulator \<Rightarrow> bool" where
  "podRefsOk st \<longleftrightarrow>
     distinct (map p_ref (allPods st)) \<and> (\<forall>p\<in>set (allPods st). p_ref p < heapNext st)"

section \<open>Intermediate states\<close>

text \<open>The part of a node that no operation changes.\<close>

definition nodeSpec :: "worker_node \<Rightarrow> string \<times> rat \<times> rat" where
  "nodeSpec n = (n_name n, cpuCapacity n, memoryCapacity n)"

text \<open>
  Two states with the same pool, up to allocation: the same node counter, workload factor,
  and node names and capacities.
\<close>

definition sameCluster :: "simulator \<Rightarrow> simulator \<Rightarrow> bool" where
  "sameCluster st st' \<longleftrightarrow>
     nodeCounter st' = nodeCounter st \<and>
     simulatedWorkloadFactor st' = simulatedWorkloadFactor st \<and>
     map nodeSpec (workerNodes st') = map nodeSpec (workerNodes st)"

text \<open>The state after the reset at the start of a successful \<^verbatim>\<open>setSimulatedWorkloadFactor\<close>.\<close>

definition wiped :: "rat \<Rightarrow> simulator \<Rightarrow> simulator" where
  "wiped factor st =
     st\<lparr>simulatedWorkloadFactor := factor,
        workerNodes := map resetNode (workerNodes st),
        namespaces := [],
        deployments := []\<rparr>"


section \<open>Example states\<close>

text \<open>
  The scenario of the specification: a fresh cluster of three nodes with the namespace
  \<^verbatim>\<open>a\<close> of quota (10, 100), and then the deployment \<^verbatim>\<open>d1\<close> of two replicas of (3, 40).
\<close>

definition clusterA :: simulator where
  "clusterA = run [CreateNamespace ''a'' 10 100] constructor"


text \<open>
  A state with Pending pods and a non-empty pool: the deployment is added while the pool
  is empty, and two nodes are added afterwards (adding a node places no pod).
\<close>

definition clusterPending :: simulator where
  "clusterPending =
     run [SetTotalWorkerNodes 0, CreateNamespace ''a'' 10 100, AddDeployment ''d1'' ''a'' 2 3 40,
          AddWorkerNode None 128 1500, AddWorkerNode None 128 1500] constructor"


text \<open>
  A loaded cluster: factor 0.1 on the fresh cluster makes one namespace with one
  deployment (every draw of the random source is taken to be 0 here, which gives one
  replica).
\<close>

definition clusterTenth :: simulator where
  "clusterTenth = run [SetSimulatedWorkloadFactor (1 / 10) (\<lambda>k. 0)] constructor"

section \<open>Lookups in the namespace table\<close>

lemma map_entry_same: "map_of xs k = Some v \<Longrightarrow> AList.map_entry k (\<lambda>_. v) xs = xs"
  by (induction xs) (auto split: if_splits)

lemma getNamespace_Own: "map_of (namespaces st) name = Some ns \<Longrightarrow> getNamespace st name = Own ns"
  by (simp add: getNamespace_def)

section \<open>Namespace accounting after a failed scale\<close>

text \<open>
  C1. The claim is that after every mutating operation each namespace's
  \<^verbatim>\<open>cpuAllocated\<close> and \<^verbatim>\<open>memoryAllocated\<close> equal the sums of
  \<^verbatim>\<open>cpuRequestPerReplica * replicaCount\<close> (and of the memory analogue) over the deployments
  registered in it. The code does not keep this after a \<^verbatim>\<open>scaleDeployment\<close> that fails the
  quota check: the rollback (commented \<^verbatim>\<open>Revert to old state\<close> in the server's copy of the
  class) re-allocates the old footprint but leaves \<^verbatim>\<open>replicaCount\<close> at the new value. On
  a fresh cluster with namespace \<^verbatim>\<open>a\<close> of quota (10, 100) and deployment
  \<^verbatim>\<open>d1\<close> of 2 replicas of (3, 40), scaling \<^verbatim>\<open>d1\<close> to 5 replicas returns false and leaves the
  namespace at (6, 80) allocated while its one deployment has the footprint (15, 200).
\<close>

theorem C1_failed_scale_breaks_namespace_accounting:
  "(let st0 = run [CreateNamespace ''a'' 10 100, AddDeployment ''d1'' ''a'' 2 3 40] constructor;
        (ok, st) = scaleDeployment ''d1'' 5 st0
    in case map_of (namespaces st) ''a'' of
         None \<Rightarrow> False
       | Some ns \<Rightarrow>
           \<not> ok \<and> ns_cpuAllocated ns = 6 \<and> cpuFootprint st ns = 15 \<and>
           ns_memoryAllocated ns = 80 \<and> memoryFootprint st ns = 200)"
  by code_simp

section \<open>The quota check\<close>



section \<open>Creating namespaces\<close>

lemma map_of_snoc_fresh: "map_of xs k = None \<Longrightarrow> map_of (xs @ [(k, v)]) k = Some v"
  by (simp add: map_add_def)

text \<open>
  C8. A second \<^verbatim>\<open>createNamespace\<close> under a name that is in the table returns null and
  changes nothing: the state after the call is the state before it, so the existing
  namespace keeps its quotas, counters and deployments.
\<close>

theorem C8_createNamespace_existing_name:
  "(map_of (namespaces st) name = Some ns \<longrightarrow> createNamespace name cq mq st = (None, st)) \<and>
   (fst (createNamespace name cq mq st) \<noteq> None \<longrightarrow>
      createNamespace name cq' mq' (snd (createNamespace name cq mq st)) =
        (None, snd (createNamespace name cq mq st)))"
proof (intro conjI impI)
  assume "map_of (namespaces st) name = Some ns"
  then show "createNamespace name cq mq st = (None, st)"
    by (simp add: createNamespace_def getNamespace_Own)
next
  assume ok: "fst (createNamespace name cq mq st) \<noteq> None"
  then have u: "getNamespace st name = Undefined"
    by (cases "getNamespace st name") (simp_all add: createNamespace_def)
  then have none: "map_of (namespaces st) name = None"
    by (simp add: getNamespace_def split: option.splits if_splits)
  let ?st' = "snd (createNamespace name cq mq st)"
  from u have "namespaces ?st' = namespaces st @ [(name, Namespace name cq mq)]"
    by (simp add: createNamespace_def Let_def)
  with none have "map_of (namespaces ?st') name = Some (Namespace name cq mq)"
    using map_of_snoc_fresh [of "namespaces st" name "Namespace name cq mq"] by simp
  then show "createNamespace name cq' mq' ?st' = (None, ?st')"
    by (simp add: createNamespace_def getNamespace_Own)
qed

theorem C8_witness:
  "fst (createNamespace ''a'' 10 100 constructor) \<noteq> None \<and>
   createNamespace ''a'' 20 200 (snd (createNamespace ''a'' 10 100 constructor)) =
     (None, snd (createNamespace ''a'' 10 100 constructor))"
proof -
  have a: "fst (createNamespace ''a'' 10 100 constructor) \<noteq> None"
    by code_simp
  from C8_createNamespace_existing_name [of constructor "''a''" undefined 10 100 20 200] a
  show ?thesis by blast
qed

text \<open>
  What \<^verbatim>\<open>createNamespace\<close> does for a name that is neither in the table nor inherited:
  it stores the namespace whatever the quotas are. With a quota that is not positive, a
  positive request is refused as long as the counters are not negative.
\<close>

lemma createNamespace_unvalidated:
  assumes "map_of (namespaces st) name = None" and "name \<notin> set objectPrototypeKeys"
  shows "createNamespace name cq mq st =
           (Some (Namespace name cq mq),
            st\<lparr>namespaces := namespaces st @ [(name, Namespace name cq mq)]\<rparr>)"
  using assms by (simp add: createNamespace_def getNamespace_def Let_def)

lemma nonpositive_quota_refuses:
  assumes "0 \<le> ns_cpuAllocated ns" and "0 \<le> ns_memoryAllocated ns"
    and "cpuQuota ns \<le> 0 \<or> memoryQuota ns \<le> 0" and "0 < cpu" and "0 < memory"
  shows "ns_allocateResources ns cpu memory = (False, ns)"
  using assms by (auto simp: ns_allocateResources_def)

text \<open>
  C10. The claim is that \<^verbatim>\<open>createNamespace\<close> succeeds for every name that is not in
  the table, whatever the quotas. The table is a plain object, and the test
  \<^verbatim>\<open>this.namespaces[name]\<close> also finds what \<^verbatim>\<open>Object.prototype\<close> provides: on a fresh
  simulator, whose table is empty, \<^verbatim>\<open>createNamespace("constructor", 10, 100)\<close> returns
  null and stores nothing.
\<close>

theorem C10_inherited_name_is_refused:
  "map_of (namespaces constructor) ''constructor'' = None \<and>
   createNamespace ''constructor'' 10 100 constructor = (None, constructor)"
  by code_simp

section \<open>Placement binds to the first candidate\<close>

lemma tryNodes_Cons:
  "tryNodes (k # rest) nodes p =
     (nodes[k := addPod (snd (n_allocateResources (nodes ! k) (cpuRequest p) (memoryRequest p))) (p_ref p)],
      p\<lparr>status := Running, p_node := Some k\<rparr>)"
  by (simp add: n_allocateResources_def)

lemma placePods_no_candidates: "placePods [] nodes ps = (nodes, ps)"
  by (induction ps) auto

lemma placePods_pods:
  "snd (placePods (k # rest) nodes ps) =
     map (\<lambda>p. if status p = Pending then p\<lparr>status := Running, p_node := Some k\<rparr> else p) ps"
  by (induction ps arbitrary: nodes) (simp_all add: split_beta tryNodes_Cons del: tryNodes.simps)


lemma sorted_hd_le: "sorted xs \<Longrightarrow> x \<in> set xs \<Longrightarrow> hd xs \<le> (x::'a::linorder)"
  by (cases xs) auto

lemma sorted_map_hd_le: "sorted (map f xs) \<Longrightarrow> x \<in> set xs \<Longrightarrow> f (hd xs) \<le> f x"
  by (cases xs) auto

lemma hd_filter_self: "xs \<noteq> [] \<Longrightarrow> P (hd xs) \<Longrightarrow> hd (filter P xs) = hd xs"
  by (cases xs) auto

lemma sortedNodes_empty: "sortedNodes nodes = [] \<longleftrightarrow> nodes = []"
proof -
  have "length (sortedNodes nodes) = length nodes" by (simp add: sortedNodes_def)
  then show ?thesis by (metis length_0_conv)
qed

text \<open>
  The first candidate is the node of least \<^verbatim>\<open>cpuAllocated\<close>, and among the nodes of least
  allocation the one that comes first in the pool.
\<close>

lemma sortedNodes_hd:
  assumes "nodes \<noteq> []"
  defines "k \<equiv> hd (sortedNodes nodes)"
  shows "k < length nodes"
    and "\<forall>j<length nodes. n_cpuAllocated (nodes ! k) \<le> n_cpuAllocated (nodes ! j)"
    and "\<forall>j<k. n_cpuAllocated (nodes ! k) < n_cpuAllocated (nodes ! j)"
proof -
  let ?f = "\<lambda>i. n_cpuAllocated (nodes ! i)"
  let ?xs = "[0..<length nodes]"
  have ne: "sortedNodes nodes \<noteq> []" using assms(1) by (simp add: sortedNodes_empty)
  then have kin: "k \<in> set (sortedNodes nodes)" unfolding k_def by simp
  then show klt: "k < length nodes" by (simp add: sortedNodes_def)
  have srt: "sorted (map ?f (sortedNodes nodes))" by (simp add: sortedNodes_def)
  show least: "\<forall>j<length nodes. ?f k \<le> ?f j"
  proof (intro allI impI)
    fix j assume "j < length nodes"
    then have "j \<in> set (sortedNodes nodes)" by (simp add: sortedNodes_def)
    with srt show "?f k \<le> ?f j" unfolding k_def by (rule sorted_map_hd_le)
  qed
  have stable: "filter (\<lambda>i. ?f i = ?f k) (sortedNodes nodes) = filter (\<lambda>i. ?f i = ?f k) ?xs"
    unfolding sortedNodes_def by (rule sort_key_stable)
  have "hd (filter (\<lambda>i. ?f i = ?f k) (sortedNodes nodes)) = k"
    using ne unfolding k_def by (simp add: hd_filter_self)
  with stable have hk: "hd (filter (\<lambda>i. ?f i = ?f k) ?xs) = k" by simp
  show "\<forall>j<k. ?f k < ?f j"
  proof (intro allI impI)
    fix j assume jk: "j < k"
    with klt have jl: "j < length nodes" by simp
    have "?f j \<noteq> ?f k"
    proof
      assume "?f j = ?f k"
      with jl have "j \<in> set (filter (\<lambda>i. ?f i = ?f k) ?xs)" by simp
      moreover have "sorted (filter (\<lambda>i. ?f i = ?f k) ?xs)" by (simp add: sorted_wrt_filter)
      ultimately have "hd (filter (\<lambda>i. ?f i = ?f k) ?xs) \<le> j" by (rule sorted_hd_le[rotated])
      with hk jk show False by simp
    qed
    with least jl show "?f k < ?f j" by (simp add: order.strict_iff_order)
  qed
qed

lemma allocateDeploymentPods_empty_pool:
  assumes "workerNodes st = []"
  shows "allocateDeploymentPods di st = st"
proof (cases "di < length (deployments st)")
  case True
  from assms have "sortedNodes (workerNodes st) = []" by (simp add: sortedNodes_empty)
  with assms True show ?thesis
    by (simp add: allocateDeploymentPods_def placePods_no_candidates)
next
  case False
  then show ?thesis by (simp add: allocateDeploymentPods_def)
qed

lemma allocateDeploymentPods_pods:
  assumes "workerNodes st \<noteq> []" and "di < length (deployments st)"
  shows "d_pods (deployments (allocateDeploymentPods di st) ! di) =
           map (\<lambda>p. if status p = Pending
                     then p\<lparr>status := Running, p_node := Some (hd (sortedNodes (workerNodes st)))\<rparr>
                     else p)
               (d_pods (deployments st ! di))"
proof -
  from assms(1) obtain k rest where c: "sortedNodes (workerNodes st) = k # rest"
    by (cases "sortedNodes (workerNodes st)") (simp_all add: sortedNodes_empty)
  have "d_pods (deployments (allocateDeploymentPods di st) ! di) =
          snd (placePods (k # rest) (workerNodes st) (d_pods (deployments st ! di)))"
    using assms(2) by (simp add: allocateDeploymentPods_def c split_beta Let_def)
  then show ?thesis by (simp add: placePods_pods c)
qed

text \<open>
  C9. With an empty pool \<^verbatim>\<open>allocateDeploymentPods\<close> changes nothing. With a non-empty pool
  there is one node \<open>k\<close>, of least \<^verbatim>\<open>cpuAllocated\<close> when the call starts and the first
  such node of the pool, to which every Pending pod of the deployment is bound; the other
  pods are untouched, and no pod of the deployment is Pending afterwards.
\<close>

theorem C9_one_node_per_call:
  "(workerNodes st = [] \<longrightarrow> allocateDeploymentPods di st = st) \<and>
   (workerNodes st \<noteq> [] \<and> di < length (deployments st) \<longrightarrow>
      (\<exists>k<length (workerNodes st).
          (\<forall>j<length (workerNodes st).
              n_cpuAllocated (workerNodes st ! k) \<le> n_cpuAllocated (workerNodes st ! j)) \<and>
          (\<forall>j<k. n_cpuAllocated (workerNodes st ! k) < n_cpuAllocated (workerNodes st ! j)) \<and>
          d_pods (deployments (allocateDeploymentPods di st) ! di) =
            map (\<lambda>p. if status p = Pending then p\<lparr>status := Running, p_node := Some k\<rparr> else p)
                (d_pods (deployments st ! di))) \<and>
      list_all (\<lambda>p. status p \<noteq> Pending) (d_pods (deployments (allocateDeploymentPods di st) ! di)))"
proof (intro conjI impI)
  assume "workerNodes st = []"
  then show "allocateDeploymentPods di st = st" by (rule allocateDeploymentPods_empty_pool)
next
  assume h: "workerNodes st \<noteq> [] \<and> di < length (deployments st)"
  let ?k = "hd (sortedNodes (workerNodes st))"
  from h have pods: "d_pods (deployments (allocateDeploymentPods di st) ! di) =
      map (\<lambda>p. if status p = Pending then p\<lparr>status := Running, p_node := Some ?k\<rparr> else p)
          (d_pods (deployments st ! di))"
    by (simp add: allocateDeploymentPods_pods)
  from h sortedNodes_hd [of "workerNodes st"] pods
  show "\<exists>k<length (workerNodes st).
          (\<forall>j<length (workerNodes st).
              n_cpuAllocated (workerNodes st ! k) \<le> n_cpuAllocated (workerNodes st ! j)) \<and>
          (\<forall>j<k. n_cpuAllocated (workerNodes st ! k) < n_cpuAllocated (workerNodes st ! j)) \<and>
          d_pods (deployments (allocateDeploymentPods di st) ! di) =
            map (\<lambda>p. if status p = Pending then p\<lparr>status := Running, p_node := Some k\<rparr> else p)
                (d_pods (deployments st ! di))"
    by blast
  show "list_all (\<lambda>p. status p \<noteq> Pending) (d_pods (deployments (allocateDeploymentPods di st) ! di))"
    unfolding pods by (auto simp: list_all_iff)
qed

theorem C9_witness:
  "workerNodes clusterPending \<noteq> [] \<and> 0 < length (deployments clusterPending) \<and>
   map status (d_pods (deployments clusterPending ! 0)) = [Pending, Pending] \<and>
   list_all (\<lambda>p. status p \<noteq> Pending) (d_pods (deployments (allocateDeploymentPods 0 clusterPending) ! 0))"
proof -
  have a: "workerNodes clusterPending \<noteq> []" by code_simp
  have b: "0 < length (deployments clusterPending)" by code_simp
  have c: "map status (d_pods (deployments clusterPending ! 0)) = [Pending, Pending]" by code_simp
  from C9_one_node_per_call [of clusterPending 0] a b c show ?thesis by blast
qed

text \<open>
  C4. The candidates are the whole pool, sorted by \<^verbatim>\<open>cpuAllocated\<close> with equal nodes in
  pool order, and every Pending pod is bound to the first candidate. The order is computed
  once, when the call starts, so the two pods of \<^verbatim>\<open>d1\<close> in the scenario of the
  specification go to the same node, the first of the pool, and not to two distinct nodes:
  the deployment succeeds, the namespace is at (6, 80) and both pods are Running.
\<close>

theorem C4_candidate_order_and_scenario:
  "sorted (map (\<lambda>i. n_cpuAllocated (nodes ! i)) (sortedNodes nodes)) \<and>
   mset (sortedNodes nodes) = mset [0..<length nodes] \<and>
   (\<forall>c. filter (\<lambda>i. n_cpuAllocated (nodes ! i) = c) (sortedNodes nodes) =
        filter (\<lambda>i. n_cpuAllocated (nodes ! i) = c) [0..<length nodes]) \<and>
   snd (placePods (k # rest) nodes ps) =
     map (\<lambda>p. if status p = Pending then p\<lparr>status := Running, p_node := Some k\<rparr> else p) ps \<and>
   (case addDeployment ''d1'' ''a'' 2 3 40 clusterA of
      Inr (Some d, st) \<Rightarrow>
        map (\<lambda>(key, ns). (key, ns_cpuAllocated ns, ns_memoryAllocated ns)) (namespaces st) =
          [(''a'', 6, 80)] \<and>
        deployments st = [d] \<and>
        map status (d_pods d) = [Running, Running] \<and>
        map p_node (d_pods d) = [Some 0, Some 0] \<and>
        map n_pods (workerNodes st) = [map p_ref (d_pods d), [], []]
    | _ \<Rightarrow> False)"
proof (intro conjI allI)
  show "case addDeployment ''d1'' ''a'' 2 3 40 clusterA of
      Inr (Some d, st) \<Rightarrow>
        map (\<lambda>(key, ns). (key, ns_cpuAllocated ns, ns_memoryAllocated ns)) (namespaces st) =
          [(''a'', 6, 80)] \<and>
        deployments st = [d] \<and>
        map status (d_pods d) = [Running, Running] \<and>
        map p_node (d_pods d) = [Some 0, Some 0] \<and>
        map n_pods (workerNodes st) = [map p_ref (d_pods d), [], []]
    | _ \<Rightarrow> False"
    by code_simp
qed (simp_all add: sortedNodes_def sort_key_stable placePods_pods)

text \<open>The claim as stated fails: the two pods are not on two distinct nodes.\<close>

theorem C4_counterexample:
  "(case addDeployment ''d1'' ''a'' 2 3 40 clusterA of
      Inr (Some d, st) \<Rightarrow> \<not> distinct (map p_node (d_pods d))
    | _ \<Rightarrow> False)"
  by code_simp

section \<open>Scaling a deployment\<close>








section \<open>What the operations leave alone, and the simulated workload\<close>

lemma map_update_same: "f y = f (xs ! k) \<Longrightarrow> map f (xs[k := y]) = map f xs"
  by (induction xs arbitrary: k) (auto simp: nth_Cons split: nat.splits)

lemma nodeSpec_simps [simp]:
  "nodeSpec (addPod n r) = nodeSpec n"
  "nodeSpec (removePod n r) = nodeSpec n"
  "nodeSpec (snd (n_allocateResources n c m)) = nodeSpec n"
  "nodeSpec (n_deallocateResources n c m) = nodeSpec n"
  "nodeSpec (resetNode n) = nodeSpec n"
  by (simp_all add: nodeSpec_def addPod_def removePod_def n_allocateResources_def
      n_deallocateResources_def resetNode_def Let_def)

lemma placePods_nodeSpec: "map nodeSpec (fst (placePods cands nodes ps)) = map nodeSpec nodes"
proof (cases cands)
  case Nil
  then show ?thesis by (simp add: placePods_no_candidates)
next
  case (Cons k rest)
  show ?thesis unfolding Cons
    by (induction ps arbitrary: nodes)
      (simp_all add: split_beta tryNodes_Cons map_update_same del: tryNodes.simps)
qed

lemma allocateDeploymentPods_frame:
  "nodeCounter (allocateDeploymentPods di st) = nodeCounter st"
  "heapNext (allocateDeploymentPods di st) = heapNext st"
  "namespaces (allocateDeploymentPods di st) = namespaces st"
  "simulatedWorkloadFactor (allocateDeploymentPods di st) = simulatedWorkloadFactor st"
  "length (deployments (allocateDeploymentPods di st)) = length (deployments st)"
  "map nodeSpec (workerNodes (allocateDeploymentPods di st)) = map nodeSpec (workerNodes st)"
  by (simp_all add: allocateDeploymentPods_def Let_def split_beta placePods_nodeSpec)




lemma map_fst_map_entry [simp]: "map fst (AList.map_entry k f xs) = map fst xs"
  by (induction xs) auto


lemma nsAllocate_Some:
  assumes "map_of (namespaces st) k = Some ns"
  shows "nsAllocate k c m st =
           (if ns_cpuAllocated ns + c \<le> cpuQuota ns \<and> ns_memoryAllocated ns + m \<le> memoryQuota ns
            then (True, st\<lparr>namespaces :=
                    AList.map_entry k
                      (\<lambda>_. ns\<lparr>ns_cpuAllocated := ns_cpuAllocated ns + c,
                               ns_memoryAllocated := ns_memoryAllocated ns + m\<rparr>)
                      (namespaces st)\<rparr>)
            else (False, st))"
  using assms by (simp add: nsAllocate_def ns_allocateResources_def map_entry_same)

lemma addDeployment_Own:
  assumes "map_of (namespaces st) k = Some ns"
  shows "addDeployment n k rc c m st =
     (if ns_cpuAllocated ns + of_int rc * c \<le> cpuQuota ns \<and>
         ns_memoryAllocated ns + of_int rc * m \<le> memoryQuota ns
      then
        (let dep = Deployment (heapNext st) n k rc c m;
             st3 = st\<lparr>heapNext := Suc (heapNext st) + length (d_pods dep),
                      deployments := deployments st @ [dep],
                      namespaces :=
                        AList.map_entry k (\<lambda>x. x\<lparr>ns_deployments := ns_deployments x @ [d_ref dep]\<rparr>)
                          (AList.map_entry k
                             (\<lambda>_. ns\<lparr>ns_cpuAllocated := ns_cpuAllocated ns + of_int rc * c,
                                      ns_memoryAllocated := ns_memoryAllocated ns + of_int rc * m\<rparr>)
                             (namespaces st))\<rparr>;
             st4 = allocateDeploymentPods (length (deployments st)) st3
         in Inr (Some (last (deployments st4)), st4))
      else Inr (None, st))"
  using assms
  by (simp add: addDeployment_def getNamespace_Own nsAllocate_Some Let_def)

lemma addDeployment_total:
  assumes "k \<in> fst ` set (namespaces st)"
  shows "\<exists>r st'. addDeployment n k rc c m st = Inr (r, st') \<and>
           nodeCounter st' = nodeCounter st \<and>
           simulatedWorkloadFactor st' = simulatedWorkloadFactor st \<and>
           map nodeSpec (workerNodes st') = map nodeSpec (workerNodes st) \<and>
           map fst (namespaces st') = map fst (namespaces st)"
proof -
  from assms have "map_of (namespaces st) k \<noteq> None"
    by (simp add: map_of_eq_None_iff)
  then obtain ns where "map_of (namespaces st) k = Some ns"
    by blast
  then show ?thesis
    by (simp add: addDeployment_Own Let_def allocateDeploymentPods_frame)
qed

lemma forEachE_invariant:
  assumes "\<And>i s. P s \<Longrightarrow> \<exists>s'. body i s = Inr s' \<and> P s'" and "P s"
  shows "\<exists>s'. forEachE js body s = Inr s' \<and> P s'"
  using assms(2)
proof (induction js arbitrary: s)
  case Nil
  then show ?case by simp
next
  case (Cons j js)
  from assms(1) [OF Cons.prems, of j] obtain s1 where s1: "body j s = Inr s1" "P s1" by blast
  from Cons.IH [OF s1(2)] s1(1) show ?case by simp
qed

lemma sim_ns_not_inherited: "''sim-ns-'' @ x \<notin> set objectPrototypeKeys"
  by (simp add: objectPrototypeKeys_def)

lemma keys_map_fst: "map fst xs = map fst ys \<Longrightarrow> fst ` set xs = fst ` set ys"
  by (metis set_map)

lemma createNamespace_frame:
  "nodeCounter (snd (createNamespace name cq mq st)) = nodeCounter st"
  "heapNext (snd (createNamespace name cq mq st)) = heapNext st"
  "workerNodes (snd (createNamespace name cq mq st)) = workerNodes st"
  "deployments (snd (createNamespace name cq mq st)) = deployments st"
  "simulatedWorkloadFactor (snd (createNamespace name cq mq st)) = simulatedWorkloadFactor st"
  by (simp_all add: createNamespace_def Let_def split: property.splits)

lemma createNamespace_present:
  assumes "name \<notin> set objectPrototypeKeys"
  shows "name \<in> fst ` set (namespaces (snd (createNamespace name cq mq st)))"
  using assms
proof (cases "map_of (namespaces st) name")
  case None
  with assms show ?thesis
    by (simp add: createNamespace_def getNamespace_def Let_def)
next
  case (Some ns)
  then have "(name, ns) \<in> set (namespaces st)" by (rule map_of_SomeD)
  then have "name \<in> fst ` set (namespaces st)" by force
  with Some show ?thesis
    by (simp add: createNamespace_def getNamespace_def)
qed

lemma simulateDeployment_total:
  assumes "sameCluster st s \<and> nsName \<in> fst ` set (namespaces s)"
  shows "\<exists>s'. simulateDeployment rnd nd nsName cpd mpd i j s = Inr s' \<and>
           (sameCluster st s' \<and> nsName \<in> fst ` set (namespaces s'))"
proof -
  from assms have present: "nsName \<in> fst ` set (namespaces s)" by simp
  have "\<exists>s'. (case addDeployment n nsName rc c m s of Inl e \<Rightarrow> Inl e | Inr (_, st') \<Rightarrow> Inr st') = Inr s' \<and>
           (sameCluster st s' \<and> nsName \<in> fst ` set (namespaces s'))" for n rc c m
  proof -
    from addDeployment_total [OF present, of n rc c m] obtain r s' where
      a: "addDeployment n nsName rc c m s = Inr (r, s')" and
      b: "nodeCounter s' = nodeCounter s"
        "simulatedWorkloadFactor s' = simulatedWorkloadFactor s"
        "map nodeSpec (workerNodes s') = map nodeSpec (workerNodes s)" and
      k: "map fst (namespaces s') = map fst (namespaces s)"
      by blast
    from keys_map_fst [OF k] present have "nsName \<in> fst ` set (namespaces s')" by simp
    with a b assms show ?thesis
      by (simp add: sameCluster_def)
  qed
  then show ?thesis
    unfolding simulateDeployment_def Let_def .
qed

lemma simulateNamespace_total:
  assumes "sameCluster st s"
  shows "\<exists>s'. simulateNamespace rnd factor tc tm nn nd i s = Inr s' \<and> sameCluster st s'"
proof -
  let ?name = "''sim-ns-'' @ string_of_nat i"
  let ?s1 = "snd (createNamespace ?name (tc / of_nat nn * (6 / 5)) (tm / of_nat nn * (6 / 5)) s)"
  have "?name \<in> fst ` set (namespaces ?s1)"
    by (rule createNamespace_present [OF sim_ns_not_inherited])
  moreover have "sameCluster st ?s1"
    using assms by (simp add: sameCluster_def createNamespace_frame)
  ultimately have "sameCluster st ?s1 \<and> ?name \<in> fst ` set (namespaces ?s1)"
    by blast
  moreover have "\<And>j x. sameCluster st x \<and> ?name \<in> fst ` set (namespaces x) \<Longrightarrow>
      \<exists>s'. simulateDeployment rnd nd ?name (tc * factor / of_nat nn / of_nat nd)
             (tm * factor / of_nat nn / of_nat nd) i j x = Inr s' \<and>
           (sameCluster st s' \<and> ?name \<in> fst ` set (namespaces s'))"
    by (rule simulateDeployment_total)
  ultimately have "\<exists>s'. forEachE [0..<nd]
        (simulateDeployment rnd nd ?name (tc * factor / of_nat nn / of_nat nd)
             (tm * factor / of_nat nn / of_nat nd) i) ?s1 = Inr s' \<and>
           (sameCluster st s' \<and> ?name \<in> fst ` set (namespaces s'))"
    by (rule forEachE_invariant [rotated])
  then show ?thesis
    unfolding simulateNamespace_def Let_def by blast
qed

lemma setSimulatedWorkloadFactor_out_of_range:
  "factor < 0 \<or> 1 < factor \<Longrightarrow> setSimulatedWorkloadFactor rnd factor st = Inr (False, st)"
  by (simp add: setSimulatedWorkloadFactor_def)

lemma setSimulatedWorkloadFactor_zero:
  "setSimulatedWorkloadFactor rnd 0 st = Inr (True, wiped 0 st)"
  by (simp add: setSimulatedWorkloadFactor_def wiped_def)

lemma setSimulatedWorkloadFactor_positive:
  assumes "0 < factor" and "factor \<le> 1"
  shows "setSimulatedWorkloadFactor rnd factor st =
     (case forEachE [0..<nat (max 1 (min 10 \<lceil>factor * 10\<rceil>))]
             (simulateNamespace rnd factor
                (sum_list (map allocatableCpu (workerNodes (wiped factor st))))
                (sum_list (map allocatableMemory (workerNodes (wiped factor st))))
                (nat (max 1 (min 10 \<lceil>factor * 10\<rceil>))) (nat (max 1 (min 10 \<lceil>factor * 10\<rceil>))))
             (wiped factor st) of
        Inl e \<Rightarrow> Inl e
      | Inr st2 \<Rightarrow> Inr (True, st2))"
proof -
  from assms have c: "\<not> (factor < 0 \<or> factor > 1)" by simp
  show ?thesis
    unfolding setSimulatedWorkloadFactor_def Let_def wiped_def
    by (simp only: c assms(1) if_True if_False)
qed

lemma wiped_wiped:
  "wiped factor (st\<lparr>workerNodes := map resetNode (workerNodes st), namespaces := [], deployments := []\<rparr>) =
   wiped factor st"
  by (simp add: wiped_def resetNode_def)

lemma setSimulatedWorkloadFactor_total:
  assumes "0 \<le> factor" and "factor \<le> 1"
  shows "\<exists>st'. setSimulatedWorkloadFactor rnd factor st = Inr (True, st') \<and> sameCluster (wiped factor st) st'"
proof (cases "0 < factor")
  case True
  have same: "sameCluster (wiped factor st) (wiped factor st)" by (simp add: sameCluster_def)
  have "\<And>i s. sameCluster (wiped factor st) s \<Longrightarrow>
        \<exists>s'. simulateNamespace rnd factor (sum_list (map allocatableCpu (workerNodes (wiped factor st))))
            (sum_list (map allocatableMemory (workerNodes (wiped factor st))))
            (nat (max 1 (min 10 \<lceil>factor * 10\<rceil>))) (nat (max 1 (min 10 \<lceil>factor * 10\<rceil>))) i s = Inr s' \<and>
          sameCluster (wiped factor st) s'"
    by (rule simulateNamespace_total)
  from forEachE_invariant [where P = "sameCluster (wiped factor st)"
      and js = "[0..<nat (max 1 (min 10 \<lceil>factor * 10\<rceil>))]"
      and body = "simulateNamespace rnd factor
            (sum_list (map allocatableCpu (workerNodes (wiped factor st))))
            (sum_list (map allocatableMemory (workerNodes (wiped factor st))))
            (nat (max 1 (min 10 \<lceil>factor * 10\<rceil>))) (nat (max 1 (min 10 \<lceil>factor * 10\<rceil>)))",
      OF this same]
  obtain s' where
    "forEachE [0..<nat (max 1 (min 10 \<lceil>factor * 10\<rceil>))]
         (simulateNamespace rnd factor (sum_list (map allocatableCpu (workerNodes (wiped factor st))))
            (sum_list (map allocatableMemory (workerNodes (wiped factor st))))
            (nat (max 1 (min 10 \<lceil>factor * 10\<rceil>))) (nat (max 1 (min 10 \<lceil>factor * 10\<rceil>))))
         (wiped factor st) = Inr s'" and "sameCluster (wiped factor st) s'"
    by blast
  then show ?thesis
    unfolding setSimulatedWorkloadFactor_positive [OF True assms(2)] by simp
next
  case False
  with assms have "factor = 0" by simp
  then show ?thesis
    by (simp add: setSimulatedWorkloadFactor_zero sameCluster_def)
qed

text \<open>
  C6. \<^verbatim>\<open>setSimulatedWorkloadFactor\<close> returns false and changes nothing when the factor is
  below 0 or above 1. Otherwise it returns true (and throws nothing), stores the factor and
  keeps the pool, its nodes' names and capacities and the node counter; the outcome is the
  one it has from the state in which every node is reset and there are no namespaces and
  no deployments. With factor 0 the result is exactly that reset state.
\<close>

theorem C6_setSimulatedWorkloadFactor:
  "(factor < 0 \<or> 1 < factor \<longrightarrow> setSimulatedWorkloadFactor rnd factor st = Inr (False, st)) \<and>
   (0 \<le> factor \<and> factor \<le> 1 \<longrightarrow>
      (\<exists>st'. setSimulatedWorkloadFactor rnd factor st = Inr (True, st') \<and>
             simulatedWorkloadFactor st' = factor \<and>
             nodeCounter st' = nodeCounter st \<and>
             map nodeSpec (workerNodes st') = map nodeSpec (workerNodes st)) \<and>
      setSimulatedWorkloadFactor rnd factor st =
        setSimulatedWorkloadFactor rnd factor
          (st\<lparr>workerNodes := map resetNode (workerNodes st), namespaces := [], deployments := []\<rparr>)) \<and>
   setSimulatedWorkloadFactor rnd 0 st =
     Inr (True, st\<lparr>simulatedWorkloadFactor := 0,
                    workerNodes := map resetNode (workerNodes st),
                    namespaces := [],
                    deployments := []\<rparr>)"
proof (intro conjI impI)
  assume "factor < 0 \<or> 1 < factor"
  then show "setSimulatedWorkloadFactor rnd factor st = Inr (False, st)"
    by (rule setSimulatedWorkloadFactor_out_of_range)
next
  assume r: "0 \<le> factor \<and> factor \<le> 1"
  with setSimulatedWorkloadFactor_total [of factor rnd st]
  obtain st' where a: "setSimulatedWorkloadFactor rnd factor st = Inr (True, st')"
    and b: "sameCluster (wiped factor st) st'"
    by blast
  from b have "simulatedWorkloadFactor st' = factor \<and>
             nodeCounter st' = nodeCounter st \<and>
             map nodeSpec (workerNodes st') = map nodeSpec (workerNodes st)"
    by (simp add: sameCluster_def wiped_def comp_def)
  with a show "\<exists>st'. setSimulatedWorkloadFactor rnd factor st = Inr (True, st') \<and>
             simulatedWorkloadFactor st' = factor \<and>
             nodeCounter st' = nodeCounter st \<and>
             map nodeSpec (workerNodes st') = map nodeSpec (workerNodes st)"
    by blast
next
  assume r: "0 \<le> factor \<and> factor \<le> 1"
  show "setSimulatedWorkloadFactor rnd factor st =
        setSimulatedWorkloadFactor rnd factor
          (st\<lparr>workerNodes := map resetNode (workerNodes st), namespaces := [], deployments := []\<rparr>)"
  proof (cases "0 < factor")
    case True
    from r have le: "factor \<le> 1" by simp
    show ?thesis
      unfolding setSimulatedWorkloadFactor_positive [OF True le] wiped_wiped ..
  next
    case False
    with r have "factor = 0" by simp
    then show ?thesis
      by (simp only: setSimulatedWorkloadFactor_zero wiped_wiped)
  qed
next
  show "setSimulatedWorkloadFactor rnd 0 st =
     Inr (True, st\<lparr>simulatedWorkloadFactor := 0,
                    workerNodes := map resetNode (workerNodes st),
                    namespaces := [],
                    deployments := []\<rparr>)"
    by (simp add: setSimulatedWorkloadFactor_zero wiped_def)
qed

lemma clusterTenth_populated:
  "length (namespaces clusterTenth) = 1 \<and> length (deployments clusterTenth) = 1 \<and>
   length (workerNodes clusterTenth) = 3 \<and>
   map n_pods (workerNodes clusterTenth) = [[1], [], []]"
  by code_simp

theorem C6_witness:
  "setSimulatedWorkloadFactor (\<lambda>k. 0) 2 clusterTenth = Inr (False, clusterTenth) \<and>
   length (namespaces clusterTenth) = 1 \<and> length (deployments clusterTenth) = 1 \<and>
   map n_pods (workerNodes clusterTenth) = [[1], [], []] \<and>
   (\<exists>st'. setSimulatedWorkloadFactor (\<lambda>k. 0) 0 clusterTenth = Inr (True, st') \<and>
          namespaces st' = [] \<and> deployments st' = [] \<and>
          map (\<lambda>n. (n_cpuAllocated n, n_memoryAllocated n, n_pods n)) (workerNodes st') =
            [(0, 0, []), (0, 0, []), (0, 0, [])] \<and>
          map nodeSpec (workerNodes st') = map nodeSpec (workerNodes clusterTenth))"
proof -
  have a: "(2::rat) < 0 \<or> 1 < (2::rat)" by simp
  have b: "(0::rat) \<le> 0 \<and> (0::rat) \<le> 1" by simp
  have z: "map (\<lambda>n. (n_cpuAllocated n, n_memoryAllocated n, n_pods n)) (map resetNode nodes) =
      replicate (length nodes) (0, 0, [])" for nodes
    by (induction nodes) (simp_all add: resetNode_def)
  from C6_setSimulatedWorkloadFactor [of 2 "\<lambda>k. 0" clusterTenth] a
  have 1: "setSimulatedWorkloadFactor (\<lambda>k. 0) 2 clusterTenth = Inr (False, clusterTenth)"
    by blast
  from C6_setSimulatedWorkloadFactor [of 0 "\<lambda>k. 0" clusterTenth] b
  have 2: "setSimulatedWorkloadFactor (\<lambda>k. 0) 0 clusterTenth =
      Inr (True, clusterTenth\<lparr>simulatedWorkloadFactor := 0,
                    workerNodes := map resetNode (workerNodes clusterTenth),
                    namespaces := [],
                    deployments := []\<rparr>)"
    by blast
  have 3: "map (\<lambda>n. (n_cpuAllocated n, n_memoryAllocated n, n_pods n))
              (map resetNode (workerNodes clusterTenth)) = [(0, 0, []), (0, 0, []), (0, 0, [])]"
    unfolding z using clusterTenth_populated by (simp add: numeral_3_eq_3)
  have 4: "map nodeSpec (map resetNode (workerNodes clusterTenth)) = map nodeSpec (workerNodes clusterTenth)"
    by (simp add: comp_def)
  show ?thesis
    unfolding 2 using 1 clusterTenth_populated
    by (simp add: 3 4 del: map_map)
qed

section \<open>Node accounting is kept by every operation\<close>

lemma boundTo_simps [simp]:
  "boundTo i [] = []"
  "boundTo i (p # ps) = (if p_node p = Some i then p # boundTo i ps else boundTo i ps)"
  "boundTo i (xs @ ys) = boundTo i xs @ boundTo i ys"
  by (simp_all add: boundTo_def)

lemma podsOk_simps [simp]:
  "podsOk n []"
  "podsOk n (p # ps) \<longleftrightarrow>
     (0 \<le> cpuRequest p \<and> 0 \<le> memoryRequest p \<and> (status p = Pending \<longrightarrow> p_node p = None) \<and>
      (\<forall>i. p_node p = Some i \<longrightarrow> i < n)) \<and> podsOk n ps"
  "podsOk n (xs @ ys) \<longleftrightarrow> podsOk n xs \<and> podsOk n ys"
  by (auto simp: podsOk_def)








lemma length_unbind_all [simp]: "length (fold unbindPod Q nodes) = length nodes"
  by (induction Q arbitrary: nodes) (simp_all add: unbindPod_def split: option.splits)






lemma depsOk_append [simp]: "depsOk (xs @ ys) \<longleftrightarrow> depsOk xs \<and> depsOk ys"
  by (auto simp: depsOk_def)
































section \<open>Node count and node names\<close>












section \<open>Pod references\<close>







lemma podRefsOk_nodes [simp]: "podRefsOk (st\<lparr>workerNodes := nodes\<rparr>) = podRefsOk st"
  by (simp add: podRefsOk_def allPods_def)





















end
